theory Spec2Isabelle
  imports
    Complex_Main
    "HOL-Library.Char_ord"
    "HOL-Library.List_Lexorder"
    "HOL-Library.Product_Lexorder"
    "HOL-Library.Multiset"
begin

section \<open>Data model\<close>

text \<open>
  The program of \<^verbatim>\<open>merge_data.py\<close> works on pandas frames. A frame as \<^verbatim>\<open>pd.read_csv\<close>
  returns it is a header (the column labels, in source order) and rows of cells. A cell is
  missing (\<open>Null\<close>: NaN, None, NA), a number, or text. Numbers are float64 in pandas; they
  are idealised here as rationals, and a missing number is \<open>None\<close>.

  A row shorter than the header reads as missing in the columns it lacks, as
  \<^verbatim>\<open>read_csv\<close> pads it. A column is looked up by its label, the first one when the label
  is on several columns; where pandas raises on such a label, so does the model.
\<close>

datatype cell = Null | Num rat | Str string

record raw_table =
  columns :: "string list"
  rows :: "cell list list"

definition cell_at :: "string list \<Rightarrow> cell list \<Rightarrow> string \<Rightarrow> cell" where
  "cell_at cols r c = (case map_of (zip cols r) c of None \<Rightarrow> Null | Some v \<Rightarrow> v)"

text \<open>
  What pandas parses and prints is not part of the program: the text-to-number parser of
  \<^verbatim>\<open>pd.to_numeric\<close>, the text a number becomes under \<^verbatim>\<open>astype("string")\<close>, and the
  calendar year \<^verbatim>\<open>pd.to_datetime(...).dt.year\<close> finds in a cell (\<open>None\<close> for NaT) are
  parameters of the model. So is the check \<^verbatim>\<open>merge\<close> makes of the dtypes of its key
  columns: \<open>merge_keys_ok\<close> says whether the tables normalised from the given frames, merged in
  this order, pass it.
\<close>

record coercions =
  parse_float :: "string \<Rightarrow> rat option"
  float_str :: "rat \<Rightarrow> string"
  day_year :: "cell \<Rightarrow> int option"
  merge_keys_ok :: "raw_table list \<Rightarrow> bool"

datatype error =
    NotOwidLike string               \<comment> \<open>ValueError: not an OWID-like file (missing Entity/Year)\<close>
  | NoValueColumn string             \<comment> \<open>ValueError: cannot find value column\<close>
  | NotUnique string                 \<comment> \<open>TypeError or AttributeError of pandas: the label names several columns\<close>
  | UnexpectedColumns string "string list"  \<comment> \<open>ValueError: unexpected columns\<close>
  | MissingRequired "string list"    \<comment> \<open>FileNotFoundError: Missing required file(s)\<close>
  | MergeRefused                     \<comment> \<open>ValueError of \<^verbatim>\<open>merge\<close>: a key label not unique, or key dtypes that do not merge\<close>
  | ReadFailure                      \<comment> \<open>any exception of \<^verbatim>\<open>pd.read_csv\<close> or \<^verbatim>\<open>zipfile\<close>\<close>

definition START_YEAR :: rat where
  "START_YEAR = 2000"

definition END_YEAR :: rat where
  "END_YEAR = 2023"

text \<open>The join key \<^verbatim>\<open>["iso3", "country", "year"]\<close>; a normalised table is a list of keyed values.\<close>

record key =
  iso3 :: string
  country :: cell
  year :: rat

section \<open>Column coercions and filters\<close>

definition to_numeric :: "coercions \<Rightarrow> cell \<Rightarrow> rat option" where
  \<comment> \<open>\<^verbatim>\<open>pd.to_numeric(..., errors="coerce")\<close>: text that does not parse becomes NaN\<close>
  "to_numeric env c = (case c of Null \<Rightarrow> None | Num q \<Rightarrow> Some q | Str s \<Rightarrow> parse_float env s)"

definition between :: "rat option \<Rightarrow> rat \<Rightarrow> rat \<Rightarrow> bool" where
  \<comment> \<open>\<^verbatim>\<open>Series.between(lo, hi)\<close>, inclusive on both sides, False on NaN\<close>
  "between v lo hi = (case v of None \<Rightarrow> False | Some q \<Rightarrow> lo \<le> q \<and> q \<le> hi)"

definition astype_string :: "coercions \<Rightarrow> cell \<Rightarrow> string option" where
  \<comment> \<open>\<^verbatim>\<open>astype("string")\<close>: missing stays missing (NA)\<close>
  "astype_string env c = (case c of Null \<Rightarrow> None | Num q \<Rightarrow> Some (float_str env q) | Str s \<Rightarrow> Some s)"

definition upper :: "char \<Rightarrow> bool" where
  "upper c = (CHR ''A'' \<le> c \<and> c \<le> CHR ''Z'')"

text \<open>
  The pattern \<^verbatim>\<open>^[A-Z]{3}$\<close> under \<^verbatim>\<open>re.match\<close>: three letters of A..Z, then the end of
  the text. In Python's \<^verbatim>\<open>re\<close> the anchor \<^verbatim>\<open>$\<close> also matches just before a newline
  that ends the text, so one trailing line feed is admitted.
\<close>

fun iso3_pattern :: "string \<Rightarrow> bool" where
  "iso3_pattern [a, b, c] = (upper a \<and> upper b \<and> upper c)"
| "iso3_pattern [a, b, c, n] = (upper a \<and> upper b \<and> upper c \<and> n = CHR 0x0A)"
| "iso3_pattern _ = False"

definition str_match :: "string option \<Rightarrow> bool" where
  \<comment> \<open>\<^verbatim>\<open>.str.match(r"^[A-Z]{3}$", na=False)\<close>\<close>
  "str_match v = (case v of None \<Rightarrow> False | Some s \<Rightarrow> iso3_pattern s)"

section \<open>read_owid_csv\<close>

definition key_columns :: "string list" where
  "key_columns = [''Entity'', ''Code'', ''Year'']"

definition value_column :: "string list \<Rightarrow> string option" where
  \<comment> \<open>the loop over \<^verbatim>\<open>df.columns[::-1]\<close>: the first label from the right that is no key label\<close>
  "value_column cols = find (\<lambda>c. c \<notin> set key_columns) (rev cols)"

definition pad :: "nat \<Rightarrow> cell list \<Rightarrow> cell list" where
  \<comment> \<open>a row at the width of the header\<close>
  "pad n r = take n (r @ replicate n Null)"

definition set_code_none :: "raw_table \<Rightarrow> raw_table" where
  \<comment> \<open>\<^verbatim>\<open>df["Code"] = None\<close> on a frame without that column: a new last column, all missing\<close>
  "set_code_none df =
     (let n = length (columns df)
      in \<lparr>columns = columns df @ [''Code''],
          rows = map (\<lambda>r. pad n r @ [Null]) (rows df)\<rparr>)"

definition rename_label :: "string \<Rightarrow> string \<Rightarrow> string \<Rightarrow> string" where
  \<comment> \<open>line 41: \<^verbatim>\<open>{"Entity": "country", "Code": "iso3", "Year": "year", value_col: value_name}\<close>\<close>
  "rename_label value_col value_name c =
     (if c = ''Entity'' then ''country''
      else if c = ''Code'' then ''iso3''
      else if c = ''Year'' then ''year''
      else if c = value_col then value_name
      else c)"

definition unique_label :: "string list \<Rightarrow> string \<Rightarrow> bool" where
  \<comment> \<open>\<^verbatim>\<open>df[label]\<close> is one column; with the label on several columns it is a frame\<close>
  "unique_label cols c = (count_list cols c = 1)"

text \<open>
  The frame line 48 returns: its header and its rows. The header holds every column that
  carries one of the four labels asked for, so a source column that is already called
  country comes back as a further country column (lines 42 to 47 do not touch it). The rows
  show iso3, the first country column, year and the value.
\<close>

record owid_frame =
  header :: "string list"
  body :: "(key \<times> rat option) list"

definition owid_row :: "coercions \<Rightarrow> string list \<Rightarrow> string \<Rightarrow> cell list \<Rightarrow> (key \<times> rat option) option" where
  \<comment> \<open>one row through lines 42 to 48, under the renamed header: None when a filter drops the row\<close>
  "owid_row env cols value_name r =
     (let y = to_numeric env (cell_at cols r ''year'');
          c = astype_string env (cell_at cols r ''iso3'')
      in if between y START_YEAR END_YEAR \<and> str_match c
         then (case (c, y) of
                 (Some c', Some y') \<Rightarrow>
                    Some (\<lparr>iso3 = c', country = cell_at cols r ''country'', year = y'\<rparr>,
                          to_numeric env (cell_at cols r value_name))
               | _ \<Rightarrow> None)
         else None)"

definition read_owid_csv :: "coercions \<Rightarrow> string \<Rightarrow> raw_table \<Rightarrow> string \<Rightarrow> error + owid_frame" where
  \<comment> \<open>\<open>name\<close> is \<^verbatim>\<open>path.name\<close>, \<open>df\<close> the frame \<^verbatim>\<open>pd.read_csv(path)\<close> returned.
      A label that lines 42 to 47 use as one column and that names several makes pandas raise:
      \<^verbatim>\<open>to_numeric\<close> refuses a frame (lines 42 and 47), a frame has no \<^verbatim>\<open>.str\<close> (line 46).\<close>
  "read_owid_csv env name df value_name =
     (if ''Entity'' \<notin> set (columns df) \<or> ''Year'' \<notin> set (columns df)
      then Inl (NotOwidLike name)
      else
        let df1 = (if ''Code'' \<notin> set (columns df) then set_code_none df else df)
        in case value_column (columns df1) of
             None \<Rightarrow> Inl (NoValueColumn name)
           | Some value_col \<Rightarrow>
               let cols = map (rename_label value_col value_name) (columns df1)
               in if \<not> unique_label cols ''year'' then Inl (NotUnique ''year'')
                  else if \<not> unique_label cols ''iso3'' then Inl (NotUnique ''iso3'')
                  else if \<not> unique_label cols value_name then Inl (NotUnique value_name)
                  else Inr \<lparr>header = concat (map (\<lambda>l. filter (\<lambda>c. c = l) cols)
                                               [''iso3'', ''country'', ''year'', value_name]),
                            body = List.map_filter (owid_row env cols value_name) (rows df1)\<rparr>)"

definition label_clash :: "string \<Rightarrow> string list \<Rightarrow> string \<Rightarrow> bool" where
  \<comment> \<open>in words of the source header: the value label is one of the labels the key columns get,
      or a column that is neither a key column nor the value column is already called iso3,
      year or as the value label\<close>
  "label_clash value_name cols value_col =
     (value_name \<in> {''country'', ''iso3'', ''year''} \<or>
      (\<exists>x \<in> set cols. x \<noteq> value_col \<and> x \<notin> set key_columns \<and>
                       (x = ''iso3'' \<or> x = ''year'' \<or> x = value_name)))"

section \<open>load_country_temp_anom\<close>

definition mean :: "rat option list \<Rightarrow> rat option" where
  \<comment> \<open>the group mean: missing values are skipped, a group with no value has a missing mean\<close>
  "mean vs =
     (let xs = List.map_filter (\<lambda>v. v) vs
      in if xs = [] then None else Some (sum_list xs / of_nat (length xs)))"

definition groupby_mean :: "(key \<times> rat option) list \<Rightarrow> (key \<times> rat option) list" where
  \<comment> \<open>\<^verbatim>\<open>groupby(["iso3", "country", "year"], as_index=False)["temp_anom"].mean()\<close>: rows with
      a missing key cell form no group (\<^verbatim>\<open>dropna=True\<close>); of the key cells only the country can
      be missing here. pandas lists the groups in key order; no output of the program shows that
      order (the table is only the right side of a left join), and the groups are listed here by
      their occurrence.\<close>
  "groupby_mean df =
     (let g = filter (\<lambda>(k, v). country k \<noteq> Null) df
      in map (\<lambda>k. (k, mean (map snd (filter (\<lambda>(k', v). k' = k) g)))) (remdups (map fst g)))"

definition temp_needed :: "string list" where
  "temp_needed = [''Entity'', ''Code'', ''Day'', ''Temperature anomaly'']"

definition temp_row :: "coercions \<Rightarrow> string list \<Rightarrow> cell list \<Rightarrow> (key \<times> rat option) option" where
  \<comment> \<open>one row through lines 65 to 76: None when a filter drops the row\<close>
  "temp_row env cols r =
     (let y = map_option rat_of_int (day_year env (cell_at cols r ''Day''));
          c = astype_string env (cell_at cols r ''Code'')
      in if between y START_YEAR END_YEAR \<and> str_match c
         then (case (c, y) of
                 (Some c', Some y') \<Rightarrow>
                    Some (\<lparr>iso3 = c', country = cell_at cols r ''Entity'', year = y'\<rparr>,
                          to_numeric env (cell_at cols r ''Temperature anomaly''))
               | _ \<Rightarrow> None)
         else None)"

definition temp_rows :: "coercions \<Rightarrow> raw_table \<Rightarrow> (key \<times> rat option) list" where
  \<comment> \<open>the frame after line 76, before the aggregation\<close>
  "temp_rows env df = List.map_filter (temp_row env (columns df)) (rows df)"

definition load_country_temp_anom ::
  "coercions \<Rightarrow> string \<Rightarrow> raw_table \<Rightarrow> error + (key \<times> rat option) list" where
  \<comment> \<open>\<open>df\<close> is the frame \<^verbatim>\<open>read_zip_csv\<close> returned\<close>
  "load_country_temp_anom env name df =
     (if \<not> set temp_needed \<subseteq> set (columns df)
      then Inl (UnexpectedColumns name (columns df))
      else Inr (groupby_mean (temp_rows env df)))"

section \<open>export_global_temp_monthly\<close>

text \<open>
  A row of the global monthly table: month, year, temp_anom, month_idx. Further columns of
  the archive's table are written through unchanged and are left out here.
\<close>

type_synonym global_row = "string \<times> rat \<times> rat option \<times> nat"

definition month_order :: "string list" where
  "month_order = [''January'', ''February'', ''March'', ''April'', ''May'', ''June'', ''July'',
                  ''August'', ''September'', ''October'', ''November'', ''December'']"

definition order_map :: "string \<rightharpoonup> nat" where
  "order_map = map_of (map (\<lambda>(i, m). (m, i + 1)) (List.enumerate 0 month_order))"

definition month_idx_of :: "cell \<Rightarrow> (string \<times> nat) option" where
  \<comment> \<open>\<^verbatim>\<open>df["month"].map(order_map)\<close>: a cell that is no key of the table maps to NaN\<close>
  "month_idx_of c = (case c of Str s \<Rightarrow> map_option (\<lambda>i. (s, i)) (order_map s) | _ \<Rightarrow> None)"

definition global_needed :: "string list" where
  "global_needed = [''Entity'', ''Year'', ''Temperature anomaly'']"

definition global_row :: "coercions \<Rightarrow> string list \<Rightarrow> cell list \<Rightarrow> global_row option" where
  \<comment> \<open>one row through lines 94 to 103 up to the sort: None when the row is dropped\<close>
  "global_row env cols r =
     (let y = to_numeric env (cell_at cols r ''Year'')
      in if between y START_YEAR END_YEAR
         then (case (y, month_idx_of (cell_at cols r ''Entity'')) of
                 (Some y', Some (m, i)) \<Rightarrow>
                    Some (m, y', to_numeric env (cell_at cols r ''Temperature anomaly''), i)
               | _ \<Rightarrow> None)
         else None)"

definition global_rows :: "coercions \<Rightarrow> raw_table \<Rightarrow> global_row list" where
  \<comment> \<open>the frame after \<^verbatim>\<open>dropna\<close>, before the sort\<close>
  "global_rows env df = List.map_filter (global_row env (columns df)) (rows df)"

definition global_key :: "global_row \<Rightarrow> rat \<times> nat" where
  "global_key r = (case r of (m, y, t, i) \<Rightarrow> (y, i))"

definition export_global_temp_monthly ::
  "coercions \<Rightarrow> string \<Rightarrow> raw_table \<Rightarrow> error + global_row list" where
  \<comment> \<open>returns the table written to \<^verbatim>\<open>GLOBAL_TEMP_OUT\<close>; \<^verbatim>\<open>sort_values\<close> on two columns is
      a stable lexicographic sort\<close>
  "export_global_temp_monthly env name df =
     (if \<not> set global_needed \<subseteq> set (columns df)
      then Inl (UnexpectedColumns name (columns df))
      else Inr (sort_key global_key (global_rows env df)))"

section \<open>Joins\<close>

text \<open>
  \<^verbatim>\<open>merge(..., on=["iso3", "country", "year"], how=...)\<close> on keyed tables. A left row with
  several matches on the right is repeated once per match; missing key cells compare equal,
  as pandas joins them. The row order of an outer merge differs between pandas versions
  (appended right-only rows, or key order); here the rows of the left table come first.
  \<open>nl\<close> and \<open>nr\<close> are the all-missing value columns of the left and of the right table.
\<close>

definition merge_left :: "'b \<Rightarrow> (key \<times> 'a) list \<Rightarrow> (key \<times> 'b) list \<Rightarrow> (key \<times> 'a \<times> 'b) list" where
  "merge_left nr L R =
     concat (map (\<lambda>(k, a).
        (case filter (\<lambda>(k', b). k' = k) R of
           [] \<Rightarrow> [(k, (a, nr))]
         | ms \<Rightarrow> map (\<lambda>(k', b). (k, (a, b))) ms)) L)"

definition merge_outer ::
  "'a \<Rightarrow> 'b \<Rightarrow> (key \<times> 'a) list \<Rightarrow> (key \<times> 'b) list \<Rightarrow> (key \<times> 'a \<times> 'b) list" where
  "merge_outer nl nr L R =
     merge_left nr L R @ map (\<lambda>(k, b). (k, (nl, b))) (filter (\<lambda>(k, b). k \<notin> set (map fst L)) R)"

section \<open>main\<close>

text \<open>
  The directory \<^verbatim>\<open>public/data\<close>: a file name maps to what reading it gives, the frame or
  the exception of the reader (for an archive: of \<^verbatim>\<open>read_zip_csv\<close> with the member the
  program names). A name outside the domain does not exist.
\<close>

type_synonym fs = "string \<rightharpoonup> (error + raw_table)"

definition find_first_existing :: "fs \<Rightarrow> string list \<Rightarrow> string option" where
  "find_first_existing fs candidates = find (\<lambda>name. fs name \<noteq> None) candidates"

definition read_file :: "fs \<Rightarrow> string \<Rightarrow> error + raw_table" where
  "read_file fs path = (case fs path of None \<Rightarrow> Inl ReadFailure | Some r \<Rightarrow> r)"

definition read_owid_path :: "coercions \<Rightarrow> fs \<Rightarrow> string \<Rightarrow> string \<Rightarrow> error + owid_frame" where
  \<comment> \<open>\<^verbatim>\<open>read_owid_csv(path, value_name)\<close> with its line 23\<close>
  "read_owid_path env fs path value_name =
     (case read_file fs path of
        Inl e \<Rightarrow> Inl e
      | Inr df \<Rightarrow> read_owid_csv env path df value_name)"

text \<open>The value columns of the master table: co2_pc, energy_pc, water_basic_pct, sanitation_pct, gdp_pc.\<close>

type_synonym indicators = "(((rat option \<times> rat option) \<times> rat option) \<times> rat option) \<times> rat option"






definition merge_indicators ::
  "(key \<times> rat option) list \<Rightarrow> (key \<times> rat option) list \<Rightarrow> (key \<times> rat option) list \<Rightarrow>
   (key \<times> rat option) list \<Rightarrow> (key \<times> rat option) list \<Rightarrow> (key \<times> indicators) list" where
  \<comment> \<open>lines 147 to 150\<close>
  "merge_indicators co2 energy water sanit gdp =
     (let df = merge_outer None None co2 energy;
          df = merge_outer (None, None) None df water;
          df = merge_outer ((None, None), None) None df sanit;
          df = merge_outer (((None, None), None), None) None df gdp
      in df)"

definition sort_values :: "(key \<times> 'a) list \<Rightarrow> (key \<times> 'a) list" where
  \<comment> \<open>\<^verbatim>\<open>df.sort_values(["iso3", "year"])\<close>: on two columns a stable lexicographic sort\<close>
  "sort_values df = sort_key (\<lambda>(k, v). (iso3 k, year k)) df"

datatype core_table =
    Core "(key \<times> indicators) list"                          \<comment> \<open>no temp_anom column\<close>
  | CoreTemp "(key \<times> indicators \<times> rat option) list"        \<comment> \<open>with the temp_anom column\<close>

record run =
  raised :: "error option"                         \<comment> \<open>the exception that ended the run\<close>
  core_merged :: "core_table option"               \<comment> \<open>what was written to \<^verbatim>\<open>OUT_FILE\<close>\<close>
  global_temp_monthly :: "global_row list option"  \<comment> \<open>what was written to \<^verbatim>\<open>GLOBAL_TEMP_OUT\<close>\<close>

definition temp_zip :: string where
  "temp_zip = ''monthly-temperature-anomalies.zip''"

definition global_temp_zip :: string where
  "global_temp_zip = ''global-temperature-anomalies-by-month.zip''"

definition load_temp :: "coercions \<Rightarrow> fs \<Rightarrow> (key \<times> rat option) list option" where
  \<comment> \<open>lines 130 to 136: any exception leaves \<^verbatim>\<open>temp = None\<close>\<close>
  "load_temp env fs =
     (if fs temp_zip \<noteq> None
      then (case read_file fs temp_zip of
              Inl e \<Rightarrow> None
            | Inr df \<Rightarrow> (case load_country_temp_anom env temp_zip df of
                          Inl e \<Rightarrow> None
                        | Inr t \<Rightarrow> Some t))
      else None)"

definition export_global :: "coercions \<Rightarrow> fs \<Rightarrow> global_row list option" where
  \<comment> \<open>lines 139 to 144: any exception is caught, and no file is written\<close>
  "export_global env fs =
     (if fs global_temp_zip \<noteq> None
      then (case read_file fs global_temp_zip of
              Inl e \<Rightarrow> None
            | Inr df \<Rightarrow> (case export_global_temp_monthly env global_temp_zip df of
                          Inl e \<Rightarrow> None
                        | Inr g \<Rightarrow> Some g))
      else None)"

definition aborted :: "error \<Rightarrow> run" where
  \<comment> \<open>an exception that reaches the top level before any file is written\<close>
  "aborted e = \<lparr>raised = Some e, core_merged = None, global_temp_monthly = None\<rparr>"

definition sources :: "fs \<Rightarrow> string list \<Rightarrow> raw_table list" where
  \<comment> \<open>the frames read from these files\<close>
  "sources fs paths = concat (map (\<lambda>p. case fs p of Some (Inr df) \<Rightarrow> [df] | _ \<Rightarrow> []) paths)"

definition merge_refused ::
  "coercions \<Rightarrow> fs \<Rightarrow> string list \<Rightarrow> owid_frame list \<Rightarrow> (key \<times> rat option) list option \<Rightarrow> bool" where
  \<comment> \<open>\<^verbatim>\<open>merge\<close> raises ValueError when a key label names two columns of a frame, and when its
      check of the key dtypes fails (country float64 in one table and text in another). The
      dtypes are those of the frames as read, so the check is asked about these.\<close>
  "merge_refused env fs paths frames temp =
     ((\<exists>f \<in> set frames. \<not> unique_label (header f) ''country'') \<or>
      \<not> merge_keys_ok env (sources fs (paths @ (if temp = None then [] else [temp_zip]))))"

definition merge_and_write ::
  "coercions \<Rightarrow> fs \<Rightarrow> string list \<Rightarrow> owid_frame \<Rightarrow> owid_frame \<Rightarrow> owid_frame \<Rightarrow> owid_frame \<Rightarrow>
   owid_frame \<Rightarrow> run" where
  \<comment> \<open>lines 129 to 157; \<open>paths\<close> are the five files read. The global monthly file is written
      before the merges, so a merge that raises leaves it written.\<close>
  "merge_and_write env fs paths co2 energy water sanit gdp =
     (let temp = load_temp env fs;
          g = export_global env fs
      in if merge_refused env fs paths [co2, energy, water, sanit, gdp] temp
         then \<lparr>raised = Some MergeRefused, core_merged = None, global_temp_monthly = g\<rparr>
         else
           let df = merge_indicators (body co2) (body energy) (body water) (body sanit) (body gdp)
           in \<lparr>raised = None,
               core_merged = Some (case temp of
                                     None \<Rightarrow> Core (sort_values df)
                                   | Some t \<Rightarrow> CoreTemp (sort_values (merge_left None df t))),
               global_temp_monthly = g\<rparr>)"

definition co2_path :: "fs \<Rightarrow> string option" where
  "co2_path fs = find_first_existing fs [''co-emissions-per-capita.csv'', ''co2-emissions-per-capita.csv'']"

definition energy_path :: "fs \<Rightarrow> string option" where
  "energy_path fs = find_first_existing fs [''per-capita-energy-use.csv'']"

definition water_path :: "fs \<Rightarrow> string option" where
  "water_path fs = find_first_existing fs [''population-using-at-least-basic-drinking-water.csv'']"

definition sanit_path :: "fs \<Rightarrow> string option" where
  "sanit_path fs = find_first_existing fs
     [''share-of-population-with-improved-sanitation-facilities.csv'',
      ''share-of-population-with-improved-sanitation-faciltities.csv'']"

definition gdp_path :: "fs \<Rightarrow> string option" where
  "gdp_path fs = find_first_existing fs [''gdp-per-capita-maddison-project-database.csv'']"

definition missing :: "fs \<Rightarrow> (string \<times> string option) list" where
  \<comment> \<open>line 120\<close>
  "missing fs = [(''co2'', co2_path fs), (''energy'', energy_path fs), (''water'', water_path fs),
                 (''sanit'', sanit_path fs), (''gdp'', gdp_path fs)]"

definition main :: "coercions \<Rightarrow> fs \<Rightarrow> run" where
  "main env fs =
     (case (co2_path fs, energy_path fs, water_path fs, sanit_path fs, gdp_path fs) of
        (Some co2_p, Some energy_p, Some water_p, Some sanit_p, Some gdp_p) \<Rightarrow>
          (case read_owid_path env fs co2_p ''co2_pc'' of
             Inl e \<Rightarrow> aborted e
           | Inr co2 \<Rightarrow>
          (case read_owid_path env fs energy_p ''energy_pc'' of
             Inl e \<Rightarrow> aborted e
           | Inr energy \<Rightarrow>
          (case read_owid_path env fs water_p ''water_basic_pct'' of
             Inl e \<Rightarrow> aborted e
           | Inr water \<Rightarrow>
          (case read_owid_path env fs sanit_p ''sanitation_pct'' of
             Inl e \<Rightarrow> aborted e
           | Inr sanit \<Rightarrow>
          (case read_owid_path env fs gdp_p ''gdp_pc'' of
             Inl e \<Rightarrow> aborted e
           | Inr gdp \<Rightarrow>
               merge_and_write env fs [co2_p, energy_p, water_p, sanit_p, gdp_p]
                 co2 energy water sanit gdp)))))
      | _ \<Rightarrow> aborted (MissingRequired (map fst (filter (\<lambda>(k, p). p = None) (missing fs)))))"

section \<open>Concrete inputs\<close>

definition env0 :: coercions where
  \<comment> \<open>coercions that parse no text; 2010-01-15 and 2010-02-15 are days of 2010\<close>
  "env0 = \<lparr>parse_float = (\<lambda>s. None), float_str = (\<lambda>q. []),
            day_year = (\<lambda>c. if c = Str ''2010-01-15'' \<or> c = Str ''2010-02-15''
                              then Some 2010 else None),
            merge_keys_ok = (\<lambda>dfs. True)\<rparr>"

definition testland :: raw_table where
  "testland = \<lparr>columns = [''Entity'', ''Code'', ''Year'', ''V''],
               rows = [ [Str ''Testland'', Str ''TST'', Num 2010, Num (11 / 2)] ]\<rparr>"

definition tst_2010 :: key where
  "tst_2010 = \<lparr>iso3 = ''TST'', country = Str ''Testland'', year = 2010\<rparr>"


definition tst_days :: raw_table where
  "tst_days = \<lparr>columns = [''Entity'', ''Code'', ''Day'', ''Temperature anomaly''],
               rows = [ [Str ''Testland'', Str ''TST'', Str ''2010-01-15'', Num 1],
                       [Str ''Testland'', Str ''TST'', Str ''2010-02-15'', Num 3] ]\<rparr>"

definition zzz_2010 :: key where
  "zzz_2010 = \<lparr>iso3 = ''ZZZ'', country = Str ''Nowhere'', year = 2010\<rparr>"

definition two_days :: raw_table where
  "two_days = \<lparr>columns = [''Entity'', ''Code'', ''Day'', ''Temperature anomaly''],
               rows = [ [Str ''Testland'', Str ''TST'', Str ''2010-01-15'', Num 1],
                       [Str ''Nowhere'', Str ''ZZZ'', Str ''2010-02-15'', Num 3] ]\<rparr>"

definition jan_twice :: raw_table where
  "jan_twice = \<lparr>columns = [''Entity'', ''Year'', ''Temperature anomaly''],
                rows = [ [Str ''January'', Num 2010, Num 1], [Str ''January'', Num 2010, Num 2] ]\<rparr>"

definition months :: raw_table where
  "months = \<lparr>columns = [''Entity'', ''Year'', ''Temperature anomaly''],
             rows = [ [Str ''February'', Num 2010, Num 2], [Str ''December'', Num 2009, Num 3],
                     [Str ''January'', Num 2010, Num 1] ]\<rparr>"

definition no_year :: raw_table where
  "no_year = \<lparr>columns = [''Entity'', ''Value''], rows = []\<rparr>"

definition fs_good :: fs where
  "fs_good = [''co-emissions-per-capita.csv'' \<mapsto> Inr testland,
              ''per-capita-energy-use.csv'' \<mapsto> Inr testland,
              ''population-using-at-least-basic-drinking-water.csv'' \<mapsto> Inr testland,
              ''share-of-population-with-improved-sanitation-facilities.csv'' \<mapsto> Inr testland,
              ''gdp-per-capita-maddison-project-database.csv'' \<mapsto> Inr testland]"


definition fs_bad_energy :: fs where
  "fs_bad_energy = fs_good(''per-capita-energy-use.csv'' \<mapsto> Inr no_year)"

definition fs_bad_zips :: fs where
  "fs_bad_zips = fs_good(temp_zip \<mapsto> Inr no_year, global_temp_zip \<mapsto> Inr no_year)"

definition tst_newline :: raw_table where
  \<comment> \<open>a quoted Code field that ends in a line feed\<close>
  "tst_newline = \<lparr>columns = [''Entity'', ''Code'', ''Year'', ''V''],
                  rows = [ [Str ''Testland'', Str [CHR ''T'', CHR ''S'', CHR ''T'', CHR 0x0A], Num 2010, Num 1] ]\<rparr>"

definition two_values :: raw_table where
  \<comment> \<open>two columns that are no key column, the last of them before Year\<close>
  "two_values = \<lparr>columns = [''Entity'', ''A'', ''Code'', ''V'', ''Year''],
                 rows = [ [Str ''Testland'', Num 7, Str ''TST'', Num (11 / 2), Num 2010] ]\<rparr>"

definition iso3_column :: raw_table where
  \<comment> \<open>a source that already has a column called iso3\<close>
  "iso3_column = \<lparr>columns = [''Entity'', ''Code'', ''iso3'', ''Year'', ''V''],
                  rows = [ [Str ''Testland'', Str ''TST'', Str ''TST'', Num 2010, Num (11 / 2)] ]\<rparr>"

definition no_code :: raw_table where
  "no_code = \<lparr>columns = [''Entity'', ''Year'', ''V''],
              rows = [ [Str ''Testland'', Num 2010, Num (11 / 2)] ]\<rparr>"

definition no_code_iso3 :: raw_table where
  "no_code_iso3 = \<lparr>columns = [''Entity'', ''Year'', ''iso3'', ''V''],
                   rows = [ [Str ''Testland'', Num 2010, Str ''TST'', Num (11 / 2)] ]\<rparr>"

definition own_output :: raw_table where
  \<comment> \<open>the frame read from the file that holds what read_owid_csv returns on \<open>testland\<close>
      under the value label co2_pc\<close>
  "own_output = \<lparr>columns = [''iso3'', ''country'', ''year'', ''co2_pc''],
                 rows = [ [Str ''TST'', Str ''Testland'', Num 2010, Num (11 / 2)] ]\<rparr>"

definition relabelled :: raw_table where
  \<comment> \<open>the same cells under the labels of a source\<close>
  "relabelled = \<lparr>columns = [''Code'', ''Entity'', ''Year'', ''co2_pc''],
                 rows = [ [Str ''TST'', Str ''Testland'', Num 2010, Num (11 / 2)] ]\<rparr>"

definition no_entity_days :: raw_table where
  \<comment> \<open>two daily rows with an empty Entity field\<close>
  "no_entity_days = \<lparr>columns = [''Entity'', ''Code'', ''Day'', ''Temperature anomaly''],
                     rows = [ [Null, Str ''TST'', Str ''2010-01-15'', Num 1],
                             [Null, Str ''TST'', Str ''2010-02-15'', Num 3] ]\<rparr>"

definition numland :: raw_table where
  \<comment> \<open>an Entity column that reads as numbers\<close>
  "numland = \<lparr>columns = [''Entity'', ''Code'', ''Year'', ''V''],
              rows = [ [Num 7, Str ''TST'', Num 2010, Num 1] ]\<rparr>"

definition env_dtypes :: coercions where
  \<comment> \<open>as \<open>env0\<close>, with a key check that refuses a frame whose Entity column holds a number\<close>
  "env_dtypes = \<lparr>parse_float = (\<lambda>s. None), float_str = (\<lambda>q. []),
                  day_year = (\<lambda>c. if c = Str ''2010-01-15'' \<or> c = Str ''2010-02-15''
                                    then Some 2010 else None),
                  merge_keys_ok = list_all (\<lambda>df. list_all
                     (\<lambda>r. case cell_at (columns df) r ''Entity'' of Num q \<Rightarrow> False | _ \<Rightarrow> True)
                     (rows df))\<rparr>"

definition fs_numeric :: fs where
  "fs_numeric = fs_good(''per-capita-energy-use.csv'' \<mapsto> Inr numland,
                        temp_zip \<mapsto> Inr no_year, global_temp_zip \<mapsto> Inr months)"

definition fs_two_days :: fs where
  "fs_two_days = fs_good(temp_zip \<mapsto> Inr two_days)"
section \<open>Lists\<close>

lemma map_filter_None: "(\<And>x. x \<in> set xs \<Longrightarrow> f x = None) \<Longrightarrow> List.map_filter f xs = []"
  by (induction xs) auto

lemma map_filter_map: "List.map_filter f (map g xs) = List.map_filter (f \<circ> g) xs"
  by (induction xs) (auto split: option.splits)

lemma set_map_filter: "set (List.map_filter f xs) = {y. \<exists>x \<in> set xs. f x = Some y}"
  by (induction xs) (auto split: option.splits)

lemma map_filter_append: "List.map_filter f (xs @ ys) = List.map_filter f xs @ List.map_filter f ys"
  by (induction xs) (auto split: option.splits)

lemma map_filter_map_id:
  "(\<And>y. y \<in> set ys \<Longrightarrow> f (g y) = Some y) \<Longrightarrow> List.map_filter f (map g ys) = ys"
  by (induction ys) auto

section \<open>Properties of the joins, the aggregation, the sort and main\<close>

lemma filter_key_empty: "filter (\<lambda>(k', b). k' = k0) R = [] \<longleftrightarrow> k0 \<notin> fst ` set R"
  by (induction R) auto













lemma filter_key_distinct:
  "distinct (map fst R) \<Longrightarrow>
     filter (\<lambda>(k', b). k' = k) R = (case map_of R k of None \<Rightarrow> [] | Some b \<Rightarrow> [(k, b)])"
proof (induction R)
  case Nil
  show ?case by simp
next
  case (Cons x R)
  obtain k0 b0 where x: "x = (k0, b0)" by (cases x)
  show ?case
  proof (cases "k0 = k")
    case True
    with Cons.prems have "k \<notin> fst ` set R" by (simp add: x)
    then have "filter (\<lambda>(k', b). k' = k) R = []" by (simp add: filter_key_empty)
    with True show ?thesis by (simp add: x)
  next
    case False
    with Cons show ?thesis by (simp add: x)
  qed
qed

lemma merge_left_distinct:
  assumes "distinct (map fst R)"
  shows "merge_left nr L R =
           map (\<lambda>(k, a). (k, (a, case map_of R k of None \<Rightarrow> nr | Some b \<Rightarrow> b))) L"
proof -
  have row: "(case filter (\<lambda>(k', b). k' = k) R of
           [] \<Rightarrow> [(k, (a, nr))]
         | ms \<Rightarrow> map (\<lambda>(k', b). (k, (a, b))) ms)
        = [(k, (a, case map_of R k of None \<Rightarrow> nr | Some b \<Rightarrow> b))]" for k a
    unfolding filter_key_distinct [OF assms] by (simp split: option.splits)
  show ?thesis
    unfolding merge_left_def
  proof (induction L)
    case Nil
    show ?case by simp
  next
    case (Cons x L)
    then show ?case by (cases x) (simp add: row)
  qed
qed

lemma map_fst_groupby_mean:
  "map fst (groupby_mean df) = remdups (map fst (filter (\<lambda>(k, v). country k \<noteq> Null) df))"
  by (simp add: groupby_mean_def Let_def comp_def)

lemma distinct_groupby_mean: "distinct (map fst (groupby_mean df))"
  by (simp add: map_fst_groupby_mean)

lemma keys_groupby_mean:
  "fst ` set (groupby_mean df) = {k \<in> fst ` set df. country k \<noteq> Null}"
proof -
  have "fst ` set (groupby_mean df) = set (map fst (groupby_mean df))" by simp
  also have "\<dots> = fst ` set (filter (\<lambda>(k, v). country k \<noteq> Null) df)"
    unfolding map_fst_groupby_mean by simp
  also have "\<dots> = {k \<in> fst ` set df. country k \<noteq> Null}" by force
  finally show ?thesis .
qed

lemma filter_key_group:
  "country k \<noteq> Null \<Longrightarrow>
     filter (\<lambda>(k', v). k' = k) (filter (\<lambda>(k, v). country k \<noteq> Null) df)
     = filter (\<lambda>(k', v). k' = k) df"
  by (induction df) auto

lemma groupby_mean_value:
  assumes "(k, m) \<in> set (groupby_mean df)"
  shows "m = mean (map snd (filter (\<lambda>(k', v). k' = k) df))"
proof -
  from assms have "k \<in> fst ` set (groupby_mean df)" by force
  then have c: "country k \<noteq> Null" unfolding keys_groupby_mean by simp
  from assms have "m = mean (map snd (filter (\<lambda>(k', v). k' = k)
      (filter (\<lambda>(k, v). country k \<noteq> Null) df)))"
    by (auto simp: groupby_mean_def Let_def)
  then show ?thesis by (simp only: filter_key_group [OF c])
qed

lemma group_values:
  "List.map_filter (\<lambda>v. v) (map snd (filter (\<lambda>(k', v). k' = k) df))
   = List.map_filter (\<lambda>(k', v). if k' = k then v else None) df"
  by (induction df) (auto split: option.splits if_splits)

text \<open>
  C4. Two daily rows of TST in 2010 with an empty Entity field pass both filters and share
  the key of TST, the missing country and 2010. load_country_temp_anom returns no row for
  this group.
\<close>

theorem load_country_temp_anom_null_country_counterexample:
  "temp_rows env0 no_entity_days
     = [(\<lparr>iso3 = ''TST'', country = Null, year = 2010\<rparr>, Some 1),
        (\<lparr>iso3 = ''TST'', country = Null, year = 2010\<rparr>, Some 3)] \<and>
   load_country_temp_anom env0 ''z'' no_entity_days = Inr []"
  by code_simp

text \<open>
  C4, amended. load_country_temp_anom returns one row for each group of rows with the same
  iso3, country and year whose country is not missing, and none for a group whose country is
  missing; the temp_anom of a row is the arithmetic mean of the values of its group that are
  not missing, and is missing when all of them are.
  Two daily rows of TST in 2010 with the anomalies 1.0 and 3.0 give the single row of TST and
  2010 with 2.0.
\<close>

theorem load_country_temp_anom_group_mean:
  "(load_country_temp_anom env name df = Inr out \<longrightarrow>
      distinct (map fst out) \<and>
      fst ` set out = {k \<in> fst ` set (temp_rows env df). country k \<noteq> Null} \<and>
      (\<forall>(k, m) \<in> set out.
         let xs = List.map_filter (\<lambda>(k', v). if k' = k then v else None) (temp_rows env df)
         in (xs = [] \<longrightarrow> m = None) \<and> (xs \<noteq> [] \<longrightarrow> m = Some (sum_list xs / of_nat (length xs))))) \<and>
   (day_year env d1 = Some 2010 \<and> day_year env d2 = Some 2010 \<and> e \<noteq> Null \<longrightarrow>
      load_country_temp_anom env name
        \<lparr>columns = [''Entity'', ''Code'', ''Day'', ''Temperature anomaly''],
         rows = [ [e, Str ''TST'', d1, Num 1], [e, Str ''TST'', d2, Num 3] ]\<rparr>
      = Inr [(\<lparr>iso3 = ''TST'', country = e, year = 2010\<rparr>, Some 2)])"
proof (intro conjI impI)
  assume "load_country_temp_anom env name df = Inr out"
  then have out: "out = groupby_mean (temp_rows env df)"
    by (simp add: load_country_temp_anom_def split: if_splits)
  show "distinct (map fst out)"
    unfolding out by (rule distinct_groupby_mean)
  show "fst ` set out = {k \<in> fst ` set (temp_rows env df). country k \<noteq> Null}"
    unfolding out by (rule keys_groupby_mean)
  show "\<forall>(k, m) \<in> set out.
         let xs = List.map_filter (\<lambda>(k', v). if k' = k then v else None) (temp_rows env df)
         in (xs = [] \<longrightarrow> m = None) \<and> (xs \<noteq> [] \<longrightarrow> m = Some (sum_list xs / of_nat (length xs)))"
  proof (clarify)
    fix k m assume "(k, m) \<in> set out"
    then have "m = mean (map snd (filter (\<lambda>(k', v). k' = k) (temp_rows env df)))"
      unfolding out by (rule groupby_mean_value)
    then show "let xs = List.map_filter (\<lambda>(k', v). if k' = k then v else None) (temp_rows env df)
         in (xs = [] \<longrightarrow> m = None) \<and> (xs \<noteq> [] \<longrightarrow> m = Some (sum_list xs / of_nat (length xs)))"
      by (simp add: mean_def group_values Let_def)
  qed
next
  assume a: "day_year env d1 = Some 2010 \<and> day_year env d2 = Some 2010 \<and> e \<noteq> Null"
  let ?cols = "[''Entity'', ''Code'', ''Day'', ''Temperature anomaly'']"
  let ?k = "\<lparr>iso3 = ''TST'', country = e, year = 2010\<rparr>"
  have r1: "temp_row env ?cols [e, Str ''TST'', d1, Num 1] = Some (?k, Some 1)"
    using a by (simp add: temp_row_def cell_at_def between_def astype_string_def str_match_def
        upper_def to_numeric_def START_YEAR_def END_YEAR_def)
  have r2: "temp_row env ?cols [e, Str ''TST'', d2, Num 3] = Some (?k, Some 3)"
    using a by (simp add: temp_row_def cell_at_def between_def astype_string_def str_match_def
        upper_def to_numeric_def START_YEAR_def END_YEAR_def)
  have "groupby_mean [(?k, Some 1), (?k, Some 3)] = [(?k, Some 2)]"
    using a by (simp add: groupby_mean_def mean_def)
  with r1 r2 show "load_country_temp_anom env name
        \<lparr>columns = ?cols, rows = [ [e, Str ''TST'', d1, Num 1], [e, Str ''TST'', d2, Num 3] ]\<rparr>
      = Inr [(?k, Some 2)]"
    by (simp add: load_country_temp_anom_def temp_rows_def temp_needed_def)
qed

theorem load_country_temp_anom_group_mean_witness:
  "load_country_temp_anom env0 ''z'' tst_days = Inr [(tst_2010, Some 2)] \<and>
   fst ` set [(tst_2010, Some (2::rat))] = {k \<in> fst ` set (temp_rows env0 tst_days). country k \<noteq> Null} \<and>
   List.map_filter (\<lambda>(k', v). if k' = tst_2010 then v else None) (temp_rows env0 tst_days) = [1, 3] \<and>
   day_year env0 (Str ''2010-01-15'') = Some 2010 \<and> day_year env0 (Str ''2010-02-15'') = Some 2010 \<and>
   Str ''Testland'' \<noteq> Null"
proof -
  have run: "load_country_temp_anom env0 ''z'' tst_days = Inr [(tst_2010, Some 2)]"
    by code_simp
  have rows: "List.map_filter (\<lambda>(k', v). if k' = tst_2010 then v else None) (temp_rows env0 tst_days) = [1, 3]"
    by code_simp
  have days: "day_year env0 (Str ''2010-01-15'') = Some 2010" "day_year env0 (Str ''2010-02-15'') = Some 2010"
    by (simp_all add: env0_def)
  from load_country_temp_anom_group_mean [of env0 "''z''" tst_days "[(tst_2010, Some 2)]"
      "Str ''2010-01-15''" "Str ''2010-02-15''" "Str ''Testland''"] run rows days
  show ?thesis by simp
qed

lemma set_sort_values: "set (sort_values df) = set df"
  by (simp add: sort_values_def)

text \<open>
  C8. Two rows for January 2010 are both written, one after the other: between them neither
  the year nor month_idx grows.
\<close>

theorem export_global_temp_monthly_ties_counterexample:
  "export_global_temp_monthly env0 ''z'' jan_twice
     = Inr [(''January'', 2010, Some 1, 1), (''January'', 2010, Some 2, 1)] \<and>
   \<not> (fst (global_key (''January'', 2010, Some 1, 1)) < fst (global_key (''January'', 2010, Some 2, 1)) \<or>
      snd (global_key (''January'', 2010, Some 1, 1)) < snd (global_key (''January'', 2010, Some 2, 1)))"
  by code_simp

lemma map_fst_enumerate:
  "map fst (map (\<lambda>(i, m). (m, i + 1)) (List.enumerate n xs)) = xs"
  by (induction xs arbitrary: n) auto

lemma order_map_None: "order_map s = None \<longleftrightarrow> s \<notin> set month_order"
proof -
  have "fst ` set (map (\<lambda>(i, m). (m, i + 1)) (List.enumerate 0 month_order))
        = set (map fst (map (\<lambda>(i, m). (m, i + 1)) (List.enumerate 0 month_order)))"
    by (simp only: set_map)
  also have "\<dots> = set month_order"
    by (simp only: map_fst_enumerate)
  finally show ?thesis
    unfolding order_map_def map_of_eq_None_iff by simp
qed

lemma month_idx_of_None: "month_idx_of c = None \<longleftrightarrow> (\<forall>m \<in> set month_order. c \<noteq> Str m)"
  by (cases c) (auto simp: month_idx_of_def order_map_None)

lemma global_row_unknown_month:
  "\<forall>m \<in> set month_order. cell_at cols r ''Entity'' \<noteq> Str m \<Longrightarrow> global_row env cols r = None"
  using month_idx_of_None [of "cell_at cols r ''Entity''"]
  by (auto simp: global_row_def Let_def split: option.splits)

lemma consecutive_strict:
  fixes xs :: "(rat \<times> nat) list"
  assumes "sorted xs" and "distinct xs" and "Suc i < length xs"
  shows "fst (xs ! i) < fst (xs ! Suc i) \<or> snd (xs ! i) < snd (xs ! Suc i)"
proof -
  from assms(1,3) have le: "xs ! i \<le> xs ! Suc i"
    by (simp add: sorted_iff_nth_Suc)
  from assms(2,3) have "xs ! i \<noteq> xs ! Suc i"
    by (simp add: nth_eq_iff_index_eq)
  with le have "xs ! i < xs ! Suc i" by simp
  then show ?thesis by (auto simp: less_prod_def)
qed

text \<open>
  C8, amended. The rows of the global monthly output are in ascending order of the pair of
  year and month_idx; when no two rows that survive the filters share that pair, every row
  after the first has a greater year or a greater month_idx than the row before it. A row
  whose month is not one of the twelve English month names, spelled exactly, is dropped and
  nothing is raised.
\<close>

theorem export_global_temp_monthly_sorted:
  "(export_global_temp_monthly env name df = Inr out \<longrightarrow>
      sorted (map global_key out) \<and>
      (distinct (map global_key (global_rows env df)) \<longrightarrow>
         (\<forall>i. Suc i < length out \<longrightarrow>
            fst (global_key (out ! i)) < fst (global_key (out ! Suc i)) \<or>
            snd (global_key (out ! i)) < snd (global_key (out ! Suc i))))) \<and>
   ((\<forall>m \<in> set month_order. cell_at (columns df) r ''Entity'' \<noteq> Str m) \<longrightarrow>
      export_global_temp_monthly env name (df\<lparr>rows := rs @ r # rs'\<rparr>)
        = export_global_temp_monthly env name (df\<lparr>rows := rs @ rs'\<rparr>))"
proof (intro conjI impI allI)
  assume "export_global_temp_monthly env name df = Inr out"
  then have out: "out = sort_key global_key (global_rows env df)"
    by (simp add: export_global_temp_monthly_def split: if_splits)
  show s: "sorted (map global_key out)"
    unfolding out by (rule sorted_sort_key)
  fix i assume d: "distinct (map global_key (global_rows env df))" and i: "Suc i < length out"
  have "mset (map global_key out) = mset (map global_key (global_rows env df))"
    unfolding out by simp
  with d have "distinct (map global_key out)"
    by (metis mset_eq_imp_distinct_iff)
  from consecutive_strict [OF s this] i
  show "fst (global_key (out ! i)) < fst (global_key (out ! Suc i)) \<or>
        snd (global_key (out ! i)) < snd (global_key (out ! Suc i))"
    by simp
next
  assume "\<forall>m \<in> set month_order. cell_at (columns df) r ''Entity'' \<noteq> Str m"
  then have "global_row env (columns df) r = None" by (rule global_row_unknown_month)
  then have "global_rows env (df\<lparr>rows := rs @ r # rs'\<rparr>) = global_rows env (df\<lparr>rows := rs @ rs'\<rparr>)"
    by (simp add: global_rows_def map_filter_append)
  then show "export_global_temp_monthly env name (df\<lparr>rows := rs @ r # rs'\<rparr>)
        = export_global_temp_monthly env name (df\<lparr>rows := rs @ rs'\<rparr>)"
    by (simp add: export_global_temp_monthly_def)
qed

theorem export_global_temp_monthly_sorted_witness:
  "export_global_temp_monthly env0 ''z'' months
     = Inr [(''December'', 2009, Some 3, 12), (''January'', 2010, Some 1, 1), (''February'', 2010, Some 2, 2)] \<and>
   sorted (map global_key [(''December'', 2009, Some 3, 12), (''January'', 2010, Some 1, 1), (''February'', 2010, Some 2, 2)]) \<and>
   distinct (map global_key (global_rows env0 months)) \<and>
   Suc 0 < length [(''December'', 2009, Some (3::rat), 12::nat), (''January'', 2010::rat, Some 1, 1), (''February'', 2010, Some 2, 2)] \<and>
   cell_at (columns months) [Str ''january'', Num 2010, Num 1] ''Entity'' = Str ''january'' \<and>
   ''january'' \<notin> set month_order \<and>
   export_global_temp_monthly env0 ''z'' (months\<lparr>rows := rows months @ [Str ''january'', Num 2010, Num 1] # []\<rparr>)
     = export_global_temp_monthly env0 ''z'' (months\<lparr>rows := rows months @ []\<rparr>)"
proof -
  have run: "export_global_temp_monthly env0 ''z'' months
     = Inr [(''December'', 2009, Some 3, 12), (''January'', 2010, Some 1, 1), (''February'', 2010, Some 2, 2)]"
    by code_simp
  have d: "distinct (map global_key (global_rows env0 months))"
    by code_simp
  have u: "\<forall>m \<in> set month_order. cell_at (columns months) [Str ''january'', Num 2010, Num 1] ''Entity'' \<noteq> Str m"
    by code_simp
  have c: "cell_at (columns months) [Str ''january'', Num 2010, Num 1] ''Entity'' = Str ''january''"
    "''january'' \<notin> set month_order"
    by code_simp+
  from export_global_temp_monthly_sorted [of env0 "''z''" months
      "[(''December'', 2009, Some 3, 12), (''January'', 2010, Some 1, 1), (''February'', 2010, Some 2, 2)]"
      "[Str ''january'', Num 2010, Num 1]" "rows months" "[]"] run d u c
  show ?thesis by simp
qed


lemma find_first_existing_None:
  "find_first_existing fs cs = None \<longleftrightarrow> (\<forall>c \<in> set cs. fs c = None)"
  by (auto simp: find_first_existing_def find_None_iff)

lemma main_paths:
  assumes "co2_path fs = Some p1" "energy_path fs = Some p2" "water_path fs = Some p3"
    "sanit_path fs = Some p4" "gdp_path fs = Some p5"
  shows "main env fs =
    (case read_owid_path env fs p1 ''co2_pc'' of
       Inl e \<Rightarrow> aborted e
     | Inr co2 \<Rightarrow>
    (case read_owid_path env fs p2 ''energy_pc'' of
       Inl e \<Rightarrow> aborted e
     | Inr energy \<Rightarrow>
    (case read_owid_path env fs p3 ''water_basic_pct'' of
       Inl e \<Rightarrow> aborted e
     | Inr water \<Rightarrow>
    (case read_owid_path env fs p4 ''sanitation_pct'' of
       Inl e \<Rightarrow> aborted e
     | Inr sanit \<Rightarrow>
    (case read_owid_path env fs p5 ''gdp_pc'' of
       Inl e \<Rightarrow> aborted e
     | Inr gdp \<Rightarrow> merge_and_write env fs [p1, p2, p3, p4, p5] co2 energy water sanit gdp)))))"
  using assms by (simp add: main_def)

lemma main_indicator_error:
  assumes "co2_path fs = Some p1" "energy_path fs = Some p2" "water_path fs = Some p3"
    "sanit_path fs = Some p4" "gdp_path fs = Some p5"
    and "read_owid_path env fs p1 ''co2_pc'' = Inl e \<or> read_owid_path env fs p2 ''energy_pc'' = Inl e \<or>
         read_owid_path env fs p3 ''water_basic_pct'' = Inl e \<or>
         read_owid_path env fs p4 ''sanitation_pct'' = Inl e \<or> read_owid_path env fs p5 ''gdp_pc'' = Inl e"
  shows "\<exists>e'. main env fs = aborted e'"
  unfolding main_paths [OF assms(1-5)] using assms(6)
  by (auto split: sum.splits)

lemma main_indicators_ok:
  assumes "co2_path fs = Some p1" "energy_path fs = Some p2" "water_path fs = Some p3"
    "sanit_path fs = Some p4" "gdp_path fs = Some p5"
    and "read_owid_path env fs p1 ''co2_pc'' = Inr co2" "read_owid_path env fs p2 ''energy_pc'' = Inr energy"
        "read_owid_path env fs p3 ''water_basic_pct'' = Inr water"
        "read_owid_path env fs p4 ''sanitation_pct'' = Inr sanit" "read_owid_path env fs p5 ''gdp_pc'' = Inr gdp"
  shows "main env fs = merge_and_write env fs [p1, p2, p3, p4, p5] co2 energy water sanit gdp"
  unfolding main_paths [OF assms(1-5)] using assms(6-10) by simp

lemma load_temp_schema_error:
  "fs temp_zip = Some (Inr tdf) \<Longrightarrow> load_country_temp_anom env temp_zip tdf = Inl e \<Longrightarrow> load_temp env fs = None"
  by (simp add: load_temp_def read_file_def)

lemma export_global_schema_error:
  "fs global_temp_zip = Some (Inr gdf) \<Longrightarrow> export_global_temp_monthly env global_temp_zip gdf = Inl e \<Longrightarrow>
   export_global env fs = None"
  by (simp add: export_global_def read_file_def)





end
